theory Spec2Isabelle
  imports Main "HOL-Library.Word"
begin

section \<open>LambdaDB: the item store, its ingestion worker and its storage formats\<close>

text \<open>
  A shallow embedding of \<^verbatim>\<open>store.go\<close>. The Go program keeps one process-wide slice
  \<^verbatim>\<open>ITEMS\<close> of pointers to items. Pointer identity matters (the worker compares
  \<^verbatim>\<open>ITEMS[label]\<close> with \<^verbatim>\<open>&smallItem\<close>), so items live in an explicit heap and the
  collection holds addresses.
\<close>

subsection \<open>Data\<close>

type_synonym byte = "8 word"

text \<open>A value of type \<^verbatim>\<open>*Item\<close>: nil, or the address of an allocated item.\<close>

datatype ptr = Null | Ptr nat

text \<open>Go \<^verbatim>\<open>error\<close> values that the storage functions can hand back, by the call they come from.\<close>

datatype go_error = ErrOpen | ErrGetwd | ErrGzipHeader | ErrGzipRead | ErrWriteFile | ErrStat

text \<open>The two ways the process dies: \<^verbatim>\<open>log.Fatal\<close> and a run-time panic.\<close>

datatype abort = Fatal string | Panic string

text \<open>\<^verbatim>\<open>type Store struct { Items Items; Maps ModelMaps }\<close>\<close>

record 'm Store =
  Items :: "ptr list"
  Maps :: 'm

text \<open>
  The process state: the global \<^verbatim>\<open>ITEMS\<close>, the heap of allocated items (an address is an
  index; allocation appends), the global state owned by the model collaborators (column
  maps, bit arrays, geo index), and the files on disk.
\<close>

record ('a, 'g) state =
  ITEMS :: "ptr list"
  heap :: "'a list"
  globals :: 'g
  files :: "string \<rightharpoonup> byte list"

text \<open>
  Everything \<^verbatim>\<open>store.go\<close> calls but does not define is a parameter, gathered in one record.

  Modelled from the spec: the collaborators \<^verbatim>\<open>Shrink\<close>, \<^verbatim>\<open>StoreBitArrayColumns\<close>,
  \<^verbatim>\<open>GeoIndex\<close>, \<^verbatim>\<open>CreateMapstore\<close>, \<^verbatim>\<open>LoadMapstore\<close>, \<^verbatim>\<open>FillIndexes\<close> and the constant
  \<^verbatim>\<open>FILENAME\<close> belong to the repository but are not in \<^verbatim>\<open>store.go\<close>; their types follow
  the collaborator interfaces of the specification: \<^verbatim>\<open>transform(ItemIn, label) \<rightarrow> Item\<close>,
  \<^verbatim>\<open>item.buildColumns()\<close> acting on the item, \<^verbatim>\<open>item.buildGeoIndexEntry(label)\<close> acting on a
  global index, \<^verbatim>\<open>ModelMaps.snapshot()\<close>, \<^verbatim>\<open>ModelMaps.load(Maps)\<close> and
  \<^verbatim>\<open>Collection.rebuildAllIndexes()\<close>. Nothing is assumed about what they compute.

  The remaining fields stand for the Go standard library (\<^verbatim>\<open>encoding/gob\<close>,
  \<^verbatim>\<open>encoding/json\<close>, \<^verbatim>\<open>compress/gzip\<close>, \<^verbatim>\<open>os\<close>):
  \<^item> \<open>gob_Encode st h\<close>: the bytes \<^verbatim>\<open>enc.Encode(s)\<close> leaves in the buffer, and whether it
    returned an error;
  \<^item> \<open>gob_Decode bs st h\<close>: \<^verbatim>\<open>decoder.Decode(&store)\<close> on input \<open>bs\<close> with target \<open>st\<close>: the
    target and heap afterwards, and whether it returned an error;
  \<^item> \<open>json_Marshal\<close>, \<open>json_Unmarshal\<close>: likewise (a failed \<^verbatim>\<open>Marshal\<close> yields no bytes);
  \<^item> \<open>gzip_Write flush bs\<close>: the stream a gzip writer has produced for \<open>bs\<close> once it is
    closed, with a \<^verbatim>\<open>Flush\<close> before the \<^verbatim>\<open>Close\<close> or without;
  \<^item> \<open>gzip_NewReader bs\<close>: whether \<^verbatim>\<open>gzip.NewReader\<close> accepts the header of \<open>bs\<close>;
  \<^item> \<open>gzip_ReadAll bs\<close>: what \<^verbatim>\<open>ioutil.ReadAll\<close> gets from an accepted reader, and
    whether it returned an error;
  \<^item> \<open>os_Create_ok f\<close>: whether the file \<open>f\<close> can be created and written;
  \<^item> \<open>os_Getwd_ok\<close>: whether \<^verbatim>\<open>os.Getwd\<close> succeeds.
\<close>

record ('i, 'a, 'm, 'g) env =
  Shrink :: "'i \<Rightarrow> nat \<Rightarrow> 'a"
  StoreBitArrayColumns :: "'a \<Rightarrow> 'a"
  GeoIndex :: "'a \<Rightarrow> nat \<Rightarrow> 'g \<Rightarrow> 'g"
  CreateMapstore :: "'g \<Rightarrow> 'm"
  LoadMapstore :: "'m \<Rightarrow> 'g \<Rightarrow> 'g"
  FillIndexes :: "ptr list \<Rightarrow> 'a list \<Rightarrow> 'g \<Rightarrow> 'g"
  FILENAME :: string
  zero_Maps :: 'm
  gob_Encode :: "'m Store \<Rightarrow> 'a list \<Rightarrow> byte list \<times> bool"
  gob_Decode :: "byte list \<Rightarrow> 'm Store \<Rightarrow> 'a list \<Rightarrow> ('m Store \<times> 'a list) \<times> bool"
  json_Marshal :: "'m Store \<Rightarrow> 'a list \<Rightarrow> byte list"
  json_Unmarshal :: "byte list \<Rightarrow> 'm Store \<Rightarrow> 'a list \<Rightarrow> ('m Store \<times> 'a list) \<times> bool"
  gzip_Write :: "bool \<Rightarrow> byte list \<Rightarrow> byte list"
  gzip_NewReader :: "byte list \<Rightarrow> bool"
  gzip_ReadAll :: "byte list \<Rightarrow> byte list \<times> bool"
  os_Create_ok :: "string \<Rightarrow> bool"
  os_Getwd_ok :: bool

text \<open>Reading through a pointer: nil and dangling addresses hold no item.\<close>

definition load_ptr :: "'a list \<Rightarrow> ptr \<Rightarrow> 'a option" where
  "load_ptr h p = (case p of Null \<Rightarrow> None
                   | Ptr a \<Rightarrow> if a < length h then Some (h ! a) else None)"

definition deref :: "('a, 'g) state \<Rightarrow> ptr \<Rightarrow> 'a option" where
  "deref s p = load_ptr (heap s) p"

text \<open>Every pointer of the collection is nil or points to an allocated item.\<close>

definition allocated :: "('a, 'g) state \<Rightarrow> bool" where
  "allocated s = list_all (\<lambda>p. case p of Null \<Rightarrow> True | Ptr a \<Rightarrow> a < length (heap s)) (ITEMS s)"

subsection \<open>The ingestion worker\<close>

text \<open>
  The body of the inner loop for a non-nil entry, with the worker's local \<^verbatim>\<open>label\<close> passed
  along. \<^verbatim>\<open>smallItem\<close> is a fresh variable of every iteration whose address escapes, so it
  is a new heap cell. The label is a Go \<^verbatim>\<open>int\<close>; it counts stored items, so it stays far
  below \<open>2^63\<close> and is a \<open>nat\<close> here. \<^verbatim>\<open>ITEMS[label]\<close> panics when the index is out of range.
\<close>

definition storeItem ::
  "('i, 'a, 'm, 'g) env \<Rightarrow> 'i \<Rightarrow> ('a, 'g) state \<times> nat \<Rightarrow> abort + ('a, 'g) state \<times> nat" where
  "storeItem E itm sl =
     (let s = fst sl; label = snd sl;
          a = length (heap s);
          s1 = s\<lparr>heap := heap s @ [Shrink E itm label]\<rparr>;
          s2 = s1\<lparr>heap := (heap s1)[a := StoreBitArrayColumns E (heap s1 ! a)]\<rparr>;
          s3 = s2\<lparr>ITEMS := ITEMS s2 @ [Ptr a]\<rparr>
      in if \<not> label < length (ITEMS s3) then Inl (Panic ''index out of range'')
         else if ITEMS s3 ! label \<noteq> Ptr a then Inl (Fatal ''storing item index off'')
         else Inr (s3\<lparr>globals := GeoIndex E (heap s3 ! a) label (globals s3)\<rparr>, label + 1))"

text \<open>\<^verbatim>\<open>for _, itm := range items { if itm != nil { ... } }\<close>: a batch holds pointers to
  input records, some of them nil.\<close>

fun storeItems ::
  "('i, 'a, 'm, 'g) env \<Rightarrow> 'i option list \<Rightarrow> ('a, 'g) state \<times> nat \<Rightarrow> abort + ('a, 'g) state \<times> nat" where
  "storeItems E [] sl = Inr sl"
| "storeItems E (itm # items) sl =
     (case itm of
        None \<Rightarrow> storeItems E items sl
      | Some x \<Rightarrow> (case storeItem E x sl of
                     Inl e \<Rightarrow> Inl e
                   | Inr sl' \<Rightarrow> storeItems E items sl'))"

text \<open>\<^verbatim>\<open>for items := range itemChan\<close>: the channel is the list of batches sent before it is
  closed.\<close>

fun storeBatches ::
  "('i, 'a, 'm, 'g) env \<Rightarrow> 'i option list list \<Rightarrow> ('a, 'g) state \<times> nat \<Rightarrow> abort + ('a, 'g) state \<times> nat" where
  "storeBatches E [] sl = Inr sl"
| "storeBatches E (items # rest) sl =
     (case storeItems E items sl of
        Inl e \<Rightarrow> Inl e
      | Inr sl' \<Rightarrow> storeBatches E rest sl')"

text \<open>\<^verbatim>\<open>ItemChanWorker\<close>: \<^verbatim>\<open>label := 0\<close>, then the loops. The result carries the final label.\<close>

definition ItemChanWorker ::
  "('i, 'a, 'm, 'g) env \<Rightarrow> 'i option list list \<Rightarrow> ('a, 'g) state \<Rightarrow> abort + ('a, 'g) state \<times> nat" where
  "ItemChanWorker E itemChan s = storeBatches E itemChan (s, 0)"

text \<open>The non-nil entries of a batch, in order.\<close>

definition nonNil :: "'i option list \<Rightarrow> 'i list" where
  "nonNil items = map the (filter (\<lambda>itm. itm \<noteq> None) items)"

subsection \<open>Snapshot and restore\<close>

definition makeStore :: "('i, 'a, 'm, 'g) env \<Rightarrow> ('a, 'g) state \<Rightarrow> 'm Store" where
  "makeStore E s = \<lparr>Items = ITEMS s, Maps = CreateMapstore E (globals s)\<rparr>"

definition restoreStore :: "('i, 'a, 'm, 'g) env \<Rightarrow> 'm Store \<Rightarrow> ('a, 'g) state \<Rightarrow> ('a, 'g) state" where
  "restoreStore E store s =
     (let s1 = s\<lparr>ITEMS := Items store\<rparr>;
          s2 = s1\<lparr>globals := LoadMapstore E (Maps store) (globals s1)\<rparr>
      in s2\<lparr>globals := FillIndexes E (ITEMS s2) (heap s2) (globals s2)\<rparr>)"

subsection \<open>Codecs and files\<close>

text \<open>\<^verbatim>\<open>Store{}\<close>: a nil slice (of length 0) and the zero value of \<^verbatim>\<open>ModelMaps\<close>.\<close>

definition zeroStore :: "('i, 'a, 'm, 'g) env \<Rightarrow> 'm Store" where
  "zeroStore E = \<lparr>Items = [], Maps = zero_Maps E\<rparr>"

text \<open>\<^verbatim>\<open>EncodeItems\<close> prints an encoding error and returns the buffer all the same.\<close>

definition EncodeItems :: "('i, 'a, 'm, 'g) env \<Rightarrow> 'm Store \<Rightarrow> 'a list \<Rightarrow> byte list" where
  "EncodeItems E s h = fst (gob_Encode E s h)"

definition Compress :: "('i, 'a, 'm, 'g) env \<Rightarrow> byte list \<Rightarrow> byte list" where
  "Compress E s = gzip_Write E False s"

text \<open>
  \<^verbatim>\<open>Decompress\<close> drops the error of \<^verbatim>\<open>gzip.NewReader\<close>. On an error the reader is a nil
  \<^verbatim>\<open>*gzip.Reader\<close>, and \<^verbatim>\<open>ioutil.ReadAll\<close> calls its \<^verbatim>\<open>Read\<close>, which dereferences it: a
  panic. A read error later in the stream is printed, and the bytes read so far returned.
\<close>

definition Decompress :: "('i, 'a, 'm, 'g) env \<Rightarrow> byte list \<Rightarrow> abort + byte list" where
  "Decompress E s =
     (if \<not> gzip_NewReader E s then Inl (Panic ''nil pointer dereference'')
      else Inr (fst (gzip_ReadAll E s)))"

text \<open>\<^verbatim>\<open>DecodeToStore\<close> decodes into a fresh \<^verbatim>\<open>Store{}\<close>, prints a decoding error and returns
  the store as the decoder left it. The decoder allocates, so the heap is returned too.\<close>

definition DecodeToStore :: "('i, 'a, 'm, 'g) env \<Rightarrow> byte list \<Rightarrow> 'a list \<Rightarrow> 'm Store \<times> 'a list" where
  "DecodeToStore E s h = fst (gob_Decode E s (zeroStore E) h)"

text \<open>\<^verbatim>\<open>WriteToFile\<close>: when \<^verbatim>\<open>os.Create\<close> fails the error is printed, the file is nil and the
  write on it fails unnoticed.\<close>

definition WriteToFile ::
  "('i, 'a, 'm, 'g) env \<Rightarrow> byte list \<Rightarrow> string \<Rightarrow> ('a, 'g) state \<Rightarrow> ('a, 'g) state" where
  "WriteToFile E s filename st =
     (if os_Create_ok E filename then st\<lparr>files := (files st)(filename \<mapsto> s)\<rparr> else st)"

text \<open>\<^verbatim>\<open>ReadFromFile\<close>: when \<^verbatim>\<open>os.Open\<close> fails the error is printed, and reading the nil file
  gives no bytes and a second error, printed as well.\<close>

definition ReadFromFile :: "('a, 'g) state \<Rightarrow> string \<Rightarrow> byte list" where
  "ReadFromFile st filename = (case files st filename of None \<Rightarrow> [] | Some data \<Rightarrow> data)"

text \<open>\<^verbatim>\<open>os.Stat\<close> followed by \<^verbatim>\<open>fi.Size()\<close>.\<close>

definition os_Stat_Size :: "('a, 'g) state \<Rightarrow> string \<Rightarrow> go_error + int" where
  "os_Stat_Size st filename =
     (case files st filename of None \<Rightarrow> Inl ErrStat | Some data \<Rightarrow> Inr (int (length data)))"

subsection \<open>Save functions\<close>

text \<open>A save function returns \<^verbatim>\<open>(int64, error)\<close>; \<open>None\<close> is the nil error.\<close>

definition saveAsJsonZipped ::
  "('i, 'a, 'm, 'g) env \<Rightarrow> string \<Rightarrow> ('a, 'g) state \<Rightarrow> ('a, 'g) state \<times> int \<times> go_error option" where
  "saveAsJsonZipped E filename s =
     (let store = makeStore E s;
          itemJSON = json_Marshal E store (heap s);
          b = gzip_Write E True itemJSON
      in if \<not> os_Create_ok E filename then (s, 0, Some ErrWriteFile)
         else (let s1 = s\<lparr>files := (files s)(filename \<mapsto> b)\<rparr>
               in case os_Stat_Size s1 filename of
                    Inl err \<Rightarrow> (s1, 0, Some err)
                  | Inr sz \<Rightarrow> (s1, sz, None)))"

definition saveAsBytes ::
  "('i, 'a, 'm, 'g) env \<Rightarrow> string \<Rightarrow> ('a, 'g) state \<Rightarrow> ('a, 'g) state \<times> int \<times> go_error option" where
  "saveAsBytes E filename s =
     (let store = makeStore E s;
          data = EncodeItems E store (heap s);
          s1 = WriteToFile E data filename s
      in case os_Stat_Size s1 filename of
           Inl err \<Rightarrow> (s1, 0, Some err)
         | Inr sz \<Rightarrow> (s1, sz, None))"

definition saveAsBytesCompressed ::
  "('i, 'a, 'm, 'g) env \<Rightarrow> string \<Rightarrow> ('a, 'g) state \<Rightarrow> ('a, 'g) state \<times> int \<times> go_error option" where
  "saveAsBytesCompressed E filename s =
     (let store = makeStore E s;
          data = EncodeItems E store (heap s);
          data = Compress E data;
          s1 = WriteToFile E data filename s
      in case os_Stat_Size s1 filename of
           Inl err \<Rightarrow> (s1, 0, Some err)
         | Inr sz \<Rightarrow> (s1, sz, None))"

subsection \<open>Load functions\<close>

text \<open>A load function returns \<^verbatim>\<open>(int, error)\<close>, unless the process panics on the way.\<close>

definition loadAsBytes ::
  "('i, 'a, 'm, 'g) env \<Rightarrow> string \<Rightarrow> ('a, 'g) state
     \<Rightarrow> abort + ('a, 'g) state \<times> int \<times> go_error option" where
  "loadAsBytes E filename s =
     (let d = ReadFromFile s filename;
          r = DecodeToStore E d (heap s);
          s1 = restoreStore E (fst r) (s\<lparr>heap := snd r\<rparr>)
      in Inr (s1, int (length (ITEMS s1)), None))"

definition loadAsBytesCompressed ::
  "('i, 'a, 'm, 'g) env \<Rightarrow> string \<Rightarrow> ('a, 'g) state
     \<Rightarrow> abort + ('a, 'g) state \<times> int \<times> go_error option" where
  "loadAsBytesCompressed E filename s =
     (let d = ReadFromFile s filename
      in case Decompress E d of
           Inl p \<Rightarrow> Inl p
         | Inr d \<Rightarrow>
             (let r = DecodeToStore E d (heap s);
                  s1 = restoreStore E (fst r) (s\<lparr>heap := snd r\<rparr>)
              in Inr (s1, int (length (ITEMS s1)), None)))"

text \<open>\<^verbatim>\<open>loadAsJsonZipped\<close> returns the errors of opening and unzipping; the error of
  \<^verbatim>\<open>json.Unmarshal\<close> is dropped. The target of the decoder is \<^verbatim>\<open>makeStore()\<close>.\<close>

definition loadAsJsonZipped ::
  "('i, 'a, 'm, 'g) env \<Rightarrow> string \<Rightarrow> ('a, 'g) state
     \<Rightarrow> abort + ('a, 'g) state \<times> int \<times> go_error option" where
  "loadAsJsonZipped E filename s =
     (case files s filename of
        None \<Rightarrow> if \<not> os_Getwd_ok E then Inr (s, 0, Some ErrGetwd) else Inr (s, 0, Some ErrOpen)
      | Some fi \<Rightarrow>
          if \<not> gzip_NewReader E fi then Inr (s, 0, Some ErrGzipHeader)
          else if snd (gzip_ReadAll E fi) then Inr (s, 0, Some ErrGzipRead)
          else (let store = makeStore E s;
                    r = fst (json_Unmarshal E (fst (gzip_ReadAll E fi)) store (heap s));
                    s1 = restoreStore E (fst r) (s\<lparr>heap := snd r\<rparr>)
                in Inr (s1, int (length (ITEMS s1)), None)))"

subsection \<open>The registry and the bootstrap path\<close>

datatype storageFunc = SaveAsBytes | SaveAsBytesCompressed | SaveAsJsonZipped

datatype retrieveFunc = LoadAsBytes | LoadAsBytesCompressed | LoadAsJsonZipped

definition STORAGEFUNCS :: "string \<rightharpoonup> storageFunc" where
  "STORAGEFUNCS =
     [''bytes'' \<mapsto> SaveAsBytes, ''bytesz'' \<mapsto> SaveAsBytesCompressed, ''json'' \<mapsto> SaveAsJsonZipped]"

definition RETRIEVEFUNCS :: "string \<rightharpoonup> retrieveFunc" where
  "RETRIEVEFUNCS =
     [''bytes'' \<mapsto> LoadAsBytes, ''bytesz'' \<mapsto> LoadAsBytesCompressed, ''json'' \<mapsto> LoadAsJsonZipped]"

text \<open>Calling an entry of a table; a missing entry is a nil function, and calling it panics.\<close>

fun callStorage ::
  "('i, 'a, 'm, 'g) env \<Rightarrow> storageFunc option \<Rightarrow> string \<Rightarrow> ('a, 'g) state
     \<Rightarrow> abort + ('a, 'g) state \<times> int \<times> go_error option" where
  "callStorage E None filename s = Inl (Panic ''nil pointer dereference'')"
| "callStorage E (Some SaveAsBytes) filename s = Inr (saveAsBytes E filename s)"
| "callStorage E (Some SaveAsBytesCompressed) filename s = Inr (saveAsBytesCompressed E filename s)"
| "callStorage E (Some SaveAsJsonZipped) filename s = Inr (saveAsJsonZipped E filename s)"

fun callRetrieve ::
  "('i, 'a, 'm, 'g) env \<Rightarrow> retrieveFunc option \<Rightarrow> string \<Rightarrow> ('a, 'g) state
     \<Rightarrow> abort + ('a, 'g) state \<times> int \<times> go_error option" where
  "callRetrieve E None filename s = Inl (Panic ''nil pointer dereference'')"
| "callRetrieve E (Some LoadAsBytes) filename s = loadAsBytes E filename s"
| "callRetrieve E (Some LoadAsBytesCompressed) filename s = loadAsBytesCompressed E filename s"
| "callRetrieve E (Some LoadAsJsonZipped) filename s = loadAsJsonZipped E filename s"

text \<open>
  The first half of \<^verbatim>\<open>loadAtStart\<close>: which function is called, and with which file name.
  In the source the fallback branch declares a new variable, \<^verbatim>\<open>storagename := "bytes"\<close>,
  whose scope is that branch; the \<^verbatim>\<open>Sprintf\<close> after the branch reads the parameter. The
  inner \<open>let\<close> below has the same scope. The parameter \<^verbatim>\<open>filename\<close> is overwritten before
  it is read.
\<close>

definition loadAtStart_call ::
  "('i, 'a, 'm, 'g) env \<Rightarrow> string \<Rightarrow> string \<Rightarrow> retrieveFunc option \<times> string" where
  "loadAtStart_call E storagename filename =
     (let retrievefunc =
            (case RETRIEVEFUNCS storagename of
               Some f \<Rightarrow> Some f
             | None \<Rightarrow> (let storagename = ''bytes'' in RETRIEVEFUNCS storagename));
          filename = FILENAME E @ ''.'' @ storagename
      in (retrievefunc, filename))"

text \<open>\<^verbatim>\<open>loadAtStart\<close>: the call, and \<^verbatim>\<open>log.Fatal\<close> when it returns an error. The messages and
  the timing are left out; \<^verbatim>\<open>indexed\<close> is not read.\<close>

definition loadAtStart ::
  "('i, 'a, 'm, 'g) env \<Rightarrow> string \<Rightarrow> string \<Rightarrow> bool \<Rightarrow> ('a, 'g) state \<Rightarrow> abort + ('a, 'g) state" where
  "loadAtStart E storagename filename indexed s =
     (let c = loadAtStart_call E storagename filename
      in case callRetrieve E (fst c) (snd c) s of
           Inl a \<Rightarrow> Inl a
         | Inr r \<Rightarrow>
             (case snd (snd r) of
                Some err \<Rightarrow> Inl (Fatal (''could not open '' @ snd c))
              | None \<Rightarrow> Inr (fst r)))"

subsection \<open>A small environment to run the model on\<close>

text \<open>
  Items and input records are single bytes, the maps are trivial and the geo index is the
  list of labels indexed so far. The codecs are toys that keep the traits of the real ones
  the examples below rest on:
  \<^item> the binary encoder writes a type descriptor, the byte 1, and then the value, the
    byte 2 and the items; it rejects a collection with a nil or dangling pointer (as gob
    rejects a nil element) and then the descriptor is all it has written; the decoder
    reports an error on input that lacks a value, leaving its target alone, and
    otherwise allocates the decoded items;
  \<^item> a JSON document is \<open>{\<close>, members, \<open>}\<close>, the only member being \<open>I\<close> followed by the
    items, a nil pointer written as the byte 0 for \<open>null\<close> (so an item is a byte other than
    0); the decoder sets only what the document holds, so \<open>{}\<close> leaves the target as
    it is, it decodes an array into the elements the target already has, and anything
    that is not a document is an error that leaves the target as it is;
  \<^item> a gzip stream is a magic byte and the data.
\<close>

definition demo_gob_Encode :: "unit Store \<Rightarrow> byte list \<Rightarrow> byte list \<times> bool" where
  "demo_gob_Encode st h =
     (if list_all (\<lambda>p. load_ptr h p \<noteq> None) (Items st)
      then (1 # 2 # map (\<lambda>p. the (load_ptr h p)) (Items st), False)
      else ([1], True))"

definition demo_gob_Decode ::
  "byte list \<Rightarrow> unit Store \<Rightarrow> byte list \<Rightarrow> (unit Store \<times> byte list) \<times> bool" where
  "demo_gob_Decode bs target h =
     (if take 2 bs = [1, 2]
      then (let rest = drop 2 bs
            in ((\<lparr>Items = map Ptr [length h ..< length h + length rest], Maps = ()\<rparr>, h @ rest),
                False))
      else ((target, h), True))"

definition demo_json_Marshal :: "unit Store \<Rightarrow> byte list \<Rightarrow> byte list" where
  "demo_json_Marshal st h =
     123 # 73 # map (\<lambda>p. case load_ptr h p of None \<Rightarrow> 0 | Some b \<Rightarrow> b) (Items st) @ [125]"

text \<open>Decoding a JSON array into the slice the target already has: element by element,
  \<open>null\<close> sets the pointer to nil, a value is decoded into the item an existing pointer
  points to, and a new item is allocated where the pointer is nil or the slice has to grow;
  the slice ends with the length of the array.\<close>

fun demo_json_elements :: "byte list \<Rightarrow> ptr list \<Rightarrow> byte list \<Rightarrow> ptr list \<times> byte list" where
  "demo_json_elements [] ps h = ([], h)"
| "demo_json_elements (b # bs) ps h =
     (let p = (case ps of [] \<Rightarrow> Null | q # qs \<Rightarrow> q)
      in if b = 0
         then (let r = demo_json_elements bs (tl ps) h in (Null # fst r, snd r))
         else (case p of
                 Ptr a \<Rightarrow>
                   if a < length h
                   then (let r = demo_json_elements bs (tl ps) (h[a := b]) in (Ptr a # fst r, snd r))
                   else (let r = demo_json_elements bs (tl ps) (h @ [b])
                         in (Ptr (length h) # fst r, snd r))
               | Null \<Rightarrow>
                   (let r = demo_json_elements bs (tl ps) (h @ [b])
                    in (Ptr (length h) # fst r, snd r))))"

definition demo_json_Unmarshal ::
  "byte list \<Rightarrow> unit Store \<Rightarrow> byte list \<Rightarrow> (unit Store \<times> byte list) \<times> bool" where
  "demo_json_Unmarshal bs target h =
     (if bs = [123, 125] then ((target, h), False)
      else if 3 \<le> length bs \<and> take 2 bs = [123, 73] \<and> last bs = 125
      then (let r = demo_json_elements (butlast (drop 2 bs)) (Items target) h
            in ((target\<lparr>Items := fst r\<rparr>, snd r), False))
      else ((target, h), True))"

definition demoEnv :: "(byte, byte, unit, nat list) env" where
  "demoEnv =
     \<lparr>Shrink = (\<lambda>itm label. itm + of_nat label),
      StoreBitArrayColumns = (\<lambda>a. a),
      GeoIndex = (\<lambda>a label g. g @ [label]),
      CreateMapstore = (\<lambda>g. ()),
      LoadMapstore = (\<lambda>m g. g),
      FillIndexes = (\<lambda>items h g. [0 ..< length items]),
      FILENAME = ''items'',
      zero_Maps = (),
      gob_Encode = demo_gob_Encode,
      gob_Decode = demo_gob_Decode,
      json_Marshal = demo_json_Marshal,
      json_Unmarshal = demo_json_Unmarshal,
      gzip_Write = (\<lambda>flush bs. 31 # bs),
      gzip_NewReader = (\<lambda>bs. case bs of [] \<Rightarrow> False | b # rest \<Rightarrow> b = 31),
      gzip_ReadAll = (\<lambda>bs. (tl bs, False)),
      os_Create_ok = (\<lambda>f. True),
      os_Getwd_ok = True\<rparr>"

text \<open>The state of a fresh process, and one that holds a single item and no file.\<close>

definition freshState :: "(byte, nat list) state" where
  "freshState = \<lparr>ITEMS = [], heap = [], globals = [], files = Map.empty\<rparr>"

definition oneItemState :: "(byte, nat list) state" where
  "oneItemState = \<lparr>ITEMS = [Ptr 0], heap = [7], globals = [0], files = Map.empty\<rparr>"

section \<open>The ingestion worker: labels and slots\<close>

lemma nonNil_simps [simp]:
  "nonNil [] = []"
  "nonNil (None # items) = nonNil items"
  "nonNil (Some x # items) = x # nonNil items"
  by (simp_all add: nonNil_def)

lemma nonNil_append [simp]: "nonNil (xs @ ys) = nonNil xs @ nonNil ys"
  by (simp add: nonNil_def)

lemma upt_head: "[h ..< Suc (h + k)] = h # [Suc h ..< Suc (h + k)]"
  by (rule upt_conv_Cons) simp

lemma upt_split: "[h ..< h + (j + k)] = [h ..< h + j] @ [h + j ..< h + (j + k)]"
  using upt_add_eq_append [of h "h + j" k] by (simp add: add.assoc)

lemma storeItem_in_step:
  assumes "length (ITEMS s) = label"
  shows "storeItem E x (s, label) =
           Inr (s\<lparr>heap := heap s @ [StoreBitArrayColumns E (Shrink E x label)],
                  ITEMS := ITEMS s @ [Ptr (length (heap s))],
                  globals := GeoIndex E (StoreBitArrayColumns E (Shrink E x label)) label (globals s)\<rparr>,
                Suc label)"
  using assms by (simp add: storeItem_def Let_def nth_append)

lemma storeItems_in_step:
  "length (ITEMS s) = label \<Longrightarrow>
   \<exists>s'. storeItems E items (s, label) = Inr (s', label + length (nonNil items))
      \<and> ITEMS s' = ITEMS s @ map Ptr [length (heap s) ..< length (heap s) + length (nonNil items)]
      \<and> heap s' = heap s @ map (\<lambda>(x, L). StoreBitArrayColumns E (Shrink E x L))
                                (zip (nonNil items) [label ..< label + length (nonNil items)])
      \<and> files s' = files s"
proof (induction items arbitrary: s label)
  case Nil
  then show ?case by simp
next
  case (Cons itm items)
  show ?case
  proof (cases itm)
    case None
    with Cons.IH [OF Cons.prems] show ?thesis by simp
  next
    case (Some x)
    let ?v = "StoreBitArrayColumns E (Shrink E x label)"
    let ?s1 = "s\<lparr>heap := heap s @ [?v], ITEMS := ITEMS s @ [Ptr (length (heap s))],
                  globals := GeoIndex E ?v label (globals s)\<rparr>"
    have step: "storeItem E x (s, label) = Inr (?s1, Suc label)"
      using Cons.prems by (rule storeItem_in_step)
    have "length (ITEMS ?s1) = Suc label" using Cons.prems by simp
    from Cons.IH [OF this] obtain s' where
      r: "storeItems E items (?s1, Suc label) = Inr (s', Suc label + length (nonNil items))"
      and i: "ITEMS s' = ITEMS ?s1 @ map Ptr [length (heap ?s1) ..< length (heap ?s1) + length (nonNil items)]"
      and h: "heap s' = heap ?s1 @ map (\<lambda>(x, L). StoreBitArrayColumns E (Shrink E x L))
                                (zip (nonNil items) [Suc label ..< Suc label + length (nonNil items)])"
      and f: "files s' = files ?s1"
      by blast
    have "storeItems E (itm # items) (s, label) = Inr (s', label + length (nonNil (itm # items)))"
      using Some step r by simp
    moreover have "ITEMS s' = ITEMS s @ map Ptr [length (heap s) ..< length (heap s) + length (nonNil (itm # items))]"
      using i Some by (simp add: upt_head [of "length (heap s)"] del: upt_Suc)
    moreover have "heap s' = heap s @ map (\<lambda>(x, L). StoreBitArrayColumns E (Shrink E x L))
                                (zip (nonNil (itm # items)) [label ..< label + length (nonNil (itm # items))])"
      using h Some by (simp add: upt_head [of label] del: upt_Suc)
    moreover have "files s' = files s" using f by simp
    ultimately show ?thesis by blast
  qed
qed

lemma storeBatches_in_step:
  "length (ITEMS s) = label \<Longrightarrow>
   \<exists>s'. storeBatches E itemChan (s, label) = Inr (s', label + length (nonNil (concat itemChan)))
      \<and> ITEMS s' = ITEMS s @ map Ptr [length (heap s) ..< length (heap s) + length (nonNil (concat itemChan))]
      \<and> heap s' = heap s @ map (\<lambda>(x, L). StoreBitArrayColumns E (Shrink E x L))
                                (zip (nonNil (concat itemChan)) [label ..< label + length (nonNil (concat itemChan))])
      \<and> files s' = files s"
proof (induction itemChan arbitrary: s label)
  case Nil
  then show ?case by simp
next
  case (Cons items rest)
  let ?k = "length (nonNil items)"
  from storeItems_in_step [OF Cons.prems, of E items] obtain s1 where
    r1: "storeItems E items (s, label) = Inr (s1, label + ?k)"
    and i1: "ITEMS s1 = ITEMS s @ map Ptr [length (heap s) ..< length (heap s) + ?k]"
    and h1: "heap s1 = heap s @ map (\<lambda>(x, L). StoreBitArrayColumns E (Shrink E x L))
                                (zip (nonNil items) [label ..< label + ?k])"
    and f1: "files s1 = files s"
    by blast
  have "length (ITEMS s1) = label + ?k" using i1 Cons.prems by simp
  from Cons.IH [OF this] obtain s' where
    r: "storeBatches E rest (s1, label + ?k) = Inr (s', label + ?k + length (nonNil (concat rest)))"
    and i: "ITEMS s' = ITEMS s1 @ map Ptr [length (heap s1) ..< length (heap s1) + length (nonNil (concat rest))]"
    and h: "heap s' = heap s1 @ map (\<lambda>(x, L). StoreBitArrayColumns E (Shrink E x L))
                                (zip (nonNil (concat rest)) [label + ?k ..< label + ?k + length (nonNil (concat rest))])"
    and f: "files s' = files s1"
    by blast
  have l1: "length (heap s1) = length (heap s) + ?k" using h1 by simp
  have "storeBatches E (items # rest) (s, label) = Inr (s', label + length (nonNil (concat (items # rest))))"
    using r1 r by (simp add: add.assoc)
  moreover have "ITEMS s' = ITEMS s @ map Ptr [length (heap s) ..< length (heap s) + length (nonNil (concat (items # rest)))]"
    using i i1 l1 by (simp add: upt_split [of "length (heap s)"] add.assoc del: upt_Suc)
  moreover have "heap s' = heap s @ map (\<lambda>(x, L). StoreBitArrayColumns E (Shrink E x L))
                                (zip (nonNil (concat (items # rest))) [label ..< label + length (nonNil (concat (items # rest)))])"
    using h h1 by (simp add: upt_split [of label] add.assoc del: upt_Suc)
  moreover have "files s' = files s" using f f1 by simp
  ultimately show ?case by blast
qed

lemma storeItem_Inr:
  assumes "storeItem E x (s, label) = Inr (s', label')"
  shows "length (ITEMS s') = Suc (length (ITEMS s)) \<and> label' = Suc label"
  using assms by (auto simp: storeItem_def Let_def split: if_splits)

lemma storeItems_Inr:
  "storeItems E items (s, label) = Inr (s', label') \<Longrightarrow>
   length (ITEMS s') = length (ITEMS s) + length (nonNil items) \<and> label' = label + length (nonNil items)"
proof (induction items arbitrary: s label)
  case Nil
  then show ?case by simp
next
  case (Cons itm items)
  show ?case
  proof (cases itm)
    case None
    with Cons.prems have "storeItems E items (s, label) = Inr (s', label')" by simp
    from Cons.IH [OF this] None show ?thesis by simp
  next
    case (Some x)
    with Cons.prems obtain s1 l1 where
      a: "storeItem E x (s, label) = Inr (s1, l1)" and b: "storeItems E items (s1, l1) = Inr (s', label')"
      by (auto split: sum.splits)
    from storeItem_Inr [OF a] Cons.IH [OF b] Some show ?thesis by simp
  qed
qed

lemma storeItem_off:
  assumes "allocated s" and "ITEMS s \<noteq> []"
  shows "storeItem E x (s, 0) = Inl (Fatal ''storing item index off'')"
proof -
  from assms(2) obtain p ps where ps: "ITEMS s = p # ps" by (cases "ITEMS s") auto
  with assms(1) have "p \<noteq> Ptr (length (heap s))"
    by (auto simp: allocated_def split: ptr.splits)
  with ps show ?thesis by (simp add: storeItem_def Let_def)
qed

lemma storeItems_off:
  assumes "allocated s" and "ITEMS s \<noteq> []"
  shows "storeItems E items (s, 0) =
           (if nonNil items = [] then Inr (s, 0) else Inl (Fatal ''storing item index off''))"
proof (induction items)
  case Nil
  show ?case by simp
next
  case (Cons itm items)
  show ?case
  proof (cases itm)
    case None
    with Cons show ?thesis by simp
  next
    case (Some x)
    with storeItem_off [OF assms, of E x] show ?thesis by simp
  qed
qed

lemma storeBatches_off:
  assumes "allocated s" and "ITEMS s \<noteq> []"
  shows "storeBatches E itemChan (s, 0) =
           (if nonNil (concat itemChan) = [] then Inr (s, 0) else Inl (Fatal ''storing item index off''))"
proof (induction itemChan)
  case Nil
  show ?case by simp
next
  case (Cons items rest)
  show ?case using Cons storeItems_off [OF assms, of E items] by simp
qed

text \<open>
  Claim C1 (label/slot identity). Started on an empty collection, the worker gets through
  every sequence of batches without dying; its final label is the number of non-nil
  records; the collection has that many entries; and for every label \<open>L\<close> below the
  count, the entry at index \<open>L\<close> is the address of the \<open>L\<close>-th cell the worker allocated,
  and that cell holds the record made by \<^verbatim>\<open>Shrink\<close> from the \<open>L\<close>-th non-nil input with label
  \<open>L\<close> (with its columns built).
\<close>

theorem worker_label_slot:
  assumes "ITEMS s = []"
  shows "\<exists>s'. ItemChanWorker E itemChan s = Inr (s', length (nonNil (concat itemChan)))
           \<and> length (ITEMS s') = length (nonNil (concat itemChan))
           \<and> (\<forall>L < length (nonNil (concat itemChan)).
                 ITEMS s' ! L = Ptr (length (heap s) + L)
                 \<and> deref s' (ITEMS s' ! L) =
                     Some (StoreBitArrayColumns E (Shrink E (nonNil (concat itemChan) ! L) L)))"
proof -
  let ?recs = "nonNil (concat itemChan)"
  have "length (ITEMS s) = 0" using assms by simp
  from storeBatches_in_step [OF this, of E itemChan] obtain s' where
    r: "storeBatches E itemChan (s, 0) = Inr (s', length ?recs)"
    and i: "ITEMS s' = map Ptr [length (heap s) ..< length (heap s) + length ?recs]"
    and h: "heap s' = heap s @ map (\<lambda>(x, L). StoreBitArrayColumns E (Shrink E x L))
                                (zip ?recs [0 ..< length ?recs])"
    using assms by auto
  have "ITEMS s' ! L = Ptr (length (heap s) + L)
        \<and> deref s' (ITEMS s' ! L) = Some (StoreBitArrayColumns E (Shrink E (?recs ! L) L))"
    if "L < length ?recs" for L
    using that i h by (simp add: deref_def load_ptr_def nth_append)
  with r i show ?thesis by (simp add: ItemChanWorker_def)
qed

theorem worker_label_slot_witness:
  "ITEMS freshState = []
   \<and> (\<exists>s'. ItemChanWorker demoEnv [[Some 10, None, Some 20]] freshState = Inr (s', 2)
          \<and> length (ITEMS s') = 2 \<and> ITEMS s' ! 1 = Ptr 1
          \<and> deref s' (ITEMS s' ! 1) = Some 21)"
proof -
  let ?chan = "[[Some 10, None, Some (20::byte)]]"
  have e: "ITEMS freshState = []" by (simp add: freshState_def)
  have n: "nonNil (concat ?chan) = [10, 20]" by simp
  from worker_label_slot [OF e, of demoEnv ?chan] obtain s' where
    r: "ItemChanWorker demoEnv ?chan freshState = Inr (s', length (nonNil (concat ?chan)))"
    and l: "length (ITEMS s') = length (nonNil (concat ?chan))"
    and a: "\<forall>L<length (nonNil (concat ?chan)). ITEMS s' ! L = Ptr (length (heap freshState) + L)
                \<and> deref s' (ITEMS s' ! L)
                    = Some (StoreBitArrayColumns demoEnv (Shrink demoEnv (nonNil (concat ?chan) ! L) L))"
    by blast
  have "1 < length (nonNil (concat ?chan))" unfolding n by simp
  with a have "ITEMS s' ! 1 = Ptr (length (heap freshState) + 1)
       \<and> deref s' (ITEMS s' ! 1)
           = Some (StoreBitArrayColumns demoEnv (Shrink demoEnv (nonNil (concat ?chan) ! 1) 1))"
    by blast
  then have "ITEMS s' ! 1 = Ptr 1 \<and> deref s' (ITEMS s' ! 1) = Some 21"
    unfolding n by (auto simp: freshState_def demoEnv_def)
  moreover have "length (nonNil (concat ?chan)) = 2" unfolding n by simp
  ultimately show ?thesis using e r l by auto
qed

text \<open>
  Claim C7 (skip semantics). A batch with \<open>K\<close> non-nil entries, the others nil: whenever the
  worker gets through the batch, the collection is longer by exactly \<open>K\<close> and the label
  higher by exactly \<open>K\<close>; and it does get through it whenever the label equals the length
  of the collection at the start of the batch, which is the state the worker is in at every
  batch when it was started on an empty collection.
\<close>

theorem batch_skip_semantics:
  "(length (ITEMS s) = label \<longrightarrow>
      (\<exists>s'. storeItems E items (s, label) = Inr (s', label + length (nonNil items))
           \<and> length (ITEMS s') = length (ITEMS s) + length (nonNil items)))
   \<and> (\<forall>s' label'. storeItems E items (s, label) = Inr (s', label') \<longrightarrow>
         length (ITEMS s') = length (ITEMS s) + length (nonNil items)
         \<and> label' = label + length (nonNil items))"
proof (intro conjI impI allI)
  assume "length (ITEMS s) = label"
  from storeItems_in_step [OF this, of E items] obtain s' where
    r: "storeItems E items (s, label) = Inr (s', label + length (nonNil items))" by blast
  from storeItems_Inr [OF r] r
  show "\<exists>s'. storeItems E items (s, label) = Inr (s', label + length (nonNil items))
           \<and> length (ITEMS s') = length (ITEMS s) + length (nonNil items)" by blast
next
  fix s' label' assume "storeItems E items (s, label) = Inr (s', label')"
  from storeItems_Inr [OF this]
  show "length (ITEMS s') = length (ITEMS s) + length (nonNil items)" by simp
next
  fix s' label' assume "storeItems E items (s, label) = Inr (s', label')"
  from storeItems_Inr [OF this]
  show "label' = label + length (nonNil items)" by simp
qed

theorem batch_skip_semantics_witness:
  "length (ITEMS freshState) = 0
   \<and> (\<exists>s'. storeItems demoEnv [Some 10, None, Some 20] (freshState, 0) = Inr (s', 2)
          \<and> length (ITEMS s') = 2)"
proof -
  let ?items = "[Some 10, None, Some (20::byte)]"
  have e: "length (ITEMS freshState) = 0" by (simp add: freshState_def)
  have k: "length (nonNil ?items) = 2" by simp
  from batch_skip_semantics [of freshState 0 demoEnv ?items] e obtain s' where
    "storeItems demoEnv ?items (freshState, 0) = Inr (s', 0 + length (nonNil ?items))"
    "length (ITEMS s') = length (ITEMS freshState) + length (nonNil ?items)"
    by blast
  then have "storeItems demoEnv ?items (freshState, 0) = Inr (s', 2) \<and> length (ITEMS s') = 2"
    unfolding k e by simp
  with e show ?thesis by blast
qed

text \<open>
  Claim C9 (the precondition of the worker). In a state whose collection holds only nil
  or allocated pointers, the worker ends in \<^verbatim>\<open>log.Fatal("storing item index off")\<close> exactly
  when the collection is not empty at its start and some batch holds a non-nil record; and
  it dies in no other way.
\<close>

theorem worker_fatal_iff_collection_nonempty:
  assumes "allocated s"
  shows "(ItemChanWorker E itemChan s = Inl (Fatal ''storing item index off''))
           = (ITEMS s \<noteq> [] \<and> nonNil (concat itemChan) \<noteq> [])
         \<and> (\<forall>a. ItemChanWorker E itemChan s = Inl a \<longrightarrow> a = Fatal ''storing item index off'')"
proof (cases "ITEMS s = []")
  case True
  then have "length (ITEMS s) = 0" by simp
  from storeBatches_in_step [OF this, of E itemChan] obtain s' k where
    "storeBatches E itemChan (s, 0) = Inr (s', k)" by auto
  with True show ?thesis by (simp add: ItemChanWorker_def)
next
  case False
  from storeBatches_off [OF assms False, of E itemChan] False
  show ?thesis by (simp add: ItemChanWorker_def)
qed

theorem worker_fatal_iff_collection_nonempty_witness:
  "allocated oneItemState
   \<and> ItemChanWorker demoEnv [[None, Some 10]] oneItemState = Inl (Fatal ''storing item index off'')"
proof -
  let ?chan = "[[None, Some (10::byte)]]"
  have a: "allocated oneItemState" by (simp add: allocated_def oneItemState_def)
  have b: "ITEMS oneItemState \<noteq> [] \<and> nonNil (concat ?chan) \<noteq> []"
    by (simp add: oneItemState_def)
  from worker_fatal_iff_collection_nonempty [OF a, of demoEnv ?chan]
  have "(ItemChanWorker demoEnv ?chan oneItemState = Inl (Fatal ''storing item index off''))
          = (ITEMS oneItemState \<noteq> [] \<and> nonNil (concat ?chan) \<noteq> [])"
    by (rule conjunct1)
  with a b show ?thesis by blast
qed

section \<open>The storage formats\<close>

text \<open>
  Claim C2 (fallback). For a storage name that is not in the retrieve table,
  \<^verbatim>\<open>loadAtStart\<close> calls the \<^verbatim>\<open>bytes\<close> load function, and the file name it passes is the base
  name joined with the name that was asked for: the \<^verbatim>\<open>"bytes"\<close> of the fallback branch is a
  variable of that branch only. The claim expects \<open><base>.bytes\<close>.
\<close>

theorem loadAtStart_unregistered_name:
  assumes "RETRIEVEFUNCS storagename = None"
  shows "loadAtStart_call E storagename filename
           = (Some LoadAsBytes, FILENAME E @ ''.'' @ storagename)"
  using assms by (simp add: loadAtStart_call_def Let_def RETRIEVEFUNCS_def)

theorem loadAtStart_unregistered_name_witness:
  "RETRIEVEFUNCS ''xml'' = None
   \<and> loadAtStart_call demoEnv ''xml'' ''items.bytes'' = (Some LoadAsBytes, ''items.xml'')"
proof -
  have n: "RETRIEVEFUNCS ''xml'' = None" by (simp add: RETRIEVEFUNCS_def)
  from loadAtStart_unregistered_name [OF n, of demoEnv "''items.bytes''"] n
  show ?thesis by (simp add: demoEnv_def)
qed

text \<open>
  Claim C3 (errors of a load). Whatever the file system holds and whatever the decoder
  reports, \<^verbatim>\<open>loadAsBytes\<close> returns the nil error, and \<^verbatim>\<open>loadAsBytesCompressed\<close> returns the nil
  error or panics; with no file at all, \<^verbatim>\<open>loadAsBytes\<close> reports 0 items loaded and no
  error. The claim expects a non-nil error.
\<close>

theorem loadAsBytes_error_is_always_nil:
  "(\<exists>s' n. loadAsBytes E filename s = Inr (s', n, None))
   \<and> ((\<exists>s' n. loadAsBytesCompressed E filename s = Inr (s', n, None))
      \<or> loadAsBytesCompressed E filename s = Inl (Panic ''nil pointer dereference''))
   \<and> loadAsBytes demoEnv ''items.bytes'' oneItemState
       = Inr (\<lparr>ITEMS = [], heap = [7], globals = [], files = Map.empty\<rparr>, 0, None)"
  by (simp add: loadAsBytes_def loadAsBytesCompressed_def Decompress_def Let_def
      ReadFromFile_def DecodeToStore_def restoreStore_def zeroStore_def
      demoEnv_def demo_gob_Decode_def oneItemState_def)

text \<open>
  Claim C4 (bootstrap failure). \<^verbatim>\<open>loadAtStart\<close> with the \<^verbatim>\<open>bytes\<close> format returns normally in
  every environment and state; with no file on disk it empties the collection and goes
  on. The claim expects \<^verbatim>\<open>log.Fatal\<close>.
\<close>

theorem loadAtStart_bytes_is_never_fatal:
  "(\<exists>s'. loadAtStart E ''bytes'' filename indexed s = Inr s')
   \<and> files oneItemState ''items.bytes'' = None
   \<and> loadAtStart demoEnv ''bytes'' ''items.bytes'' False oneItemState
       = Inr \<lparr>ITEMS = [], heap = [7], globals = [], files = Map.empty\<rparr>"
  by (simp add: loadAtStart_def loadAtStart_call_def RETRIEVEFUNCS_def loadAsBytes_def Let_def
      ReadFromFile_def DecodeToStore_def restoreStore_def zeroStore_def
      demoEnv_def demo_gob_Decode_def oneItemState_def)

text \<open>
  Claim C5 (restore after a failed decode). With one item in memory and no file on disk,
  the decoder fails on the empty input, and \<^verbatim>\<open>loadAsBytes\<close> still calls \<^verbatim>\<open>restoreStore\<close>: the
  collection is empty afterwards. The claim expects the collection to be left as it was.
\<close>

theorem loadAsBytes_restores_after_failed_decode:
  "snd (gob_Decode demoEnv (ReadFromFile oneItemState ''items.bytes'') (zeroStore demoEnv)
          (heap oneItemState))
   \<and> ITEMS oneItemState = [Ptr 0]
   \<and> (\<exists>s' n e. loadAsBytes demoEnv ''items.bytes'' oneItemState = Inr (s', n, e) \<and> ITEMS s' = [])"
  by (simp add: loadAsBytes_def Let_def
      ReadFromFile_def DecodeToStore_def restoreStore_def zeroStore_def
      demoEnv_def demo_gob_Decode_def oneItemState_def)

text \<open>
  Claim C8 (restore replaces). The target of the JSON decoder is \<^verbatim>\<open>makeStore()\<close>, the
  current store. For the document \<open>{}\<close>, which holds no items (decoded into \<^verbatim>\<open>Store{}\<close> it
  gives none), and one item in memory, \<^verbatim>\<open>loadAsJsonZipped\<close> reports 1 item loaded and the
  collection still holds the prior item. The claim expects 0 items and the prior one gone.
\<close>

theorem loadAsJsonZipped_keeps_prior_items:
  "Items (fst (fst (json_Unmarshal demoEnv [123, 125] (zeroStore demoEnv) []))) = []
   \<and> ITEMS oneItemState = [Ptr 0]
   \<and> (\<exists>s'. loadAsJsonZipped demoEnv ''items.json''
               (oneItemState\<lparr>files := [''items.json'' \<mapsto> [31, 123, 125]]\<rparr>) = Inr (s', 1, None)
          \<and> ITEMS s' = [Ptr 0] \<and> deref s' (Ptr 0) = Some 7)"
  by (simp add: loadAsJsonZipped_def Let_def makeStore_def restoreStore_def zeroStore_def
      demoEnv_def demo_json_Unmarshal_def oneItemState_def deref_def load_ptr_def)

text \<open>
  Claim C10 (saving reads only). After each of the three save functions, whatever it
  returns, \<^verbatim>\<open>ITEMS\<close> is the list of pointers it was before, and so are the items they
  point to.
\<close>

theorem saves_leave_ITEMS_alone:
  "ITEMS (fst (saveAsBytes E filename s)) = ITEMS s
   \<and> ITEMS (fst (saveAsBytesCompressed E filename s)) = ITEMS s
   \<and> ITEMS (fst (saveAsJsonZipped E filename s)) = ITEMS s
   \<and> heap (fst (saveAsBytes E filename s)) = heap s
   \<and> heap (fst (saveAsBytesCompressed E filename s)) = heap s
   \<and> heap (fst (saveAsJsonZipped E filename s)) = heap s"
  by (simp add: saveAsBytes_def saveAsBytesCompressed_def saveAsJsonZipped_def Let_def
      WriteToFile_def os_Stat_Size_def split: sum.splits option.splits)

end
